theory Spec2Isabelle
  imports Complex_Main "HOL-Library.Sublist"
begin

section \<open>Messages\<close>

text \<open>
  The two dataclasses of the repository. \<open>content\<close> is typed \<open>Any\<close> in the source and is
  a type parameter here; a \<open>Dict\<close> of metadata is an association list. The field \<open>id\<close> of
  \<open>AsyncMessage\<close> is called \<open>msg_id\<close>, since \<open>id\<close> is the identity function of HOL.
\<close>

record 'c Message =
  sender :: string
  receiver :: string
  content :: 'c
  message_type :: string
  metadata :: "(string \<times> string) list option"

record 'c AsyncMessage =
  msg_id :: string
  sender :: string
  receiver :: string
  content :: 'c
  message_type :: string
  metadata :: "(string \<times> string) list option"

text \<open>
  The declarations themselves, field by field as the two \<open>@dataclass\<close> bodies list them:
  the name, the annotation and the default value (\<open>NoDefault\<close> for a required field).
\<close>

datatype annotation = Str | Any | OptionalDict

datatype default_value = NoDefault | DefaultStr string | DefaultNone

type_synonym field_decl = "string \<times> annotation \<times> default_value"

definition Message_fields :: "field_decl list" where
  "Message_fields =
     [(''sender'', Str, NoDefault),
      (''receiver'', Str, NoDefault),
      (''content'', Any, NoDefault),
      (''message_type'', Str, DefaultStr ''data''),
      (''metadata'', OptionalDict, DefaultNone)]"

definition AsyncMessage_fields :: "field_decl list" where
  "AsyncMessage_fields =
     [(''id'', Str, NoDefault),
      (''sender'', Str, NoDefault),
      (''receiver'', Str, NoDefault),
      (''content'', Any, NoDefault),
      (''message_type'', Str, DefaultStr ''data''),
      (''metadata'', OptionalDict, DefaultNone)]"

definition field_names :: "field_decl list \<Rightarrow> string list" where
  "field_names fs = map fst fs"

section \<open>Synchronous path (src/agents/communication.py)\<close>

text \<open>One \<open>queue.Queue\<close> per registered agent name, oldest message first.\<close>

type_synonym 'c AgentCommunication = "string \<rightharpoonup> 'c Message list"

definition init_comm :: "'c AgentCommunication" where
  "init_comm = Map.empty"

definition comm_register_agent :: "string \<Rightarrow> 'c AgentCommunication \<Rightarrow> 'c AgentCommunication" where
  "comm_register_agent agent_name message_queues =
     (if message_queues agent_name = None then message_queues(agent_name \<mapsto> [])
      else message_queues)"

definition send_message :: "'c Message \<Rightarrow> 'c AgentCommunication \<Rightarrow> bool \<times> 'c AgentCommunication" where
  "send_message message message_queues =
     (case message_queues (Message.receiver message) of
        None \<Rightarrow> (False, message_queues)
      | Some q \<Rightarrow> (True, message_queues(Message.receiver message \<mapsto> q @ [message])))"

definition get_messages :: "string \<Rightarrow> 'c AgentCommunication \<Rightarrow> 'c Message list \<times> 'c AgentCommunication" where
  "get_messages agent_name message_queues =
     (case message_queues agent_name of
        None \<Rightarrow> ([], message_queues)
      | Some q \<Rightarrow> (q, message_queues(agent_name \<mapsto> [])))"

section \<open>Asynchronous path (src/messaging/queue.py)\<close>

text \<open>
  \<open>queues\<close> and \<open>subscribers\<close> are \<open>defaultdict\<close>s: a map, where indexing a missing key
  stores the default (an empty queue, an empty list) under it and \<open>get\<close> and \<open>in\<close> do
  not. An \<open>asyncio.Queue\<close> with no size limit is the list of its pending messages,
  oldest first.
\<close>

record 'c AsyncMessageQueue =
  queues :: "string \<rightharpoonup> 'c AsyncMessage list"
  subscribers :: "string \<rightharpoonup> string list"
  running :: bool

definition init_queue :: "'c AsyncMessageQueue" where
  "init_queue = \<lparr>queues = Map.empty, subscribers = Map.empty, running = True\<rparr>"

definition defaultdict_getitem :: "('k \<rightharpoonup> 'v list) \<Rightarrow> 'k \<Rightarrow> 'v list \<times> ('k \<rightharpoonup> 'v list)" where
  "defaultdict_getitem d k = (case d k of None \<Rightarrow> ([], d(k \<mapsto> [])) | Some v \<Rightarrow> (v, d))"

definition register_agent :: "string \<Rightarrow> 'c AsyncMessageQueue \<Rightarrow> 'c AsyncMessageQueue" where
  "register_agent agent_id st =
     (if queues st agent_id = None then st\<lparr>queues := (queues st)(agent_id \<mapsto> [])\<rparr>
      else st)"

definition subscribe :: "string \<Rightarrow> string \<Rightarrow> 'c AsyncMessageQueue \<Rightarrow> 'c AsyncMessageQueue" where
  "subscribe subscriber publisher st =
     (let (subs, d) = defaultdict_getitem (subscribers st) publisher
      in if subscriber \<notin> set subs then st\<lparr>subscribers := d(publisher \<mapsto> subs @ [subscriber])\<rparr>
         else st\<lparr>subscribers := d\<rparr>)"

text \<open>
  Lines 41 to 43 of \<open>publish\<close>. \<open>self.subscribers.get(message.sender, [])\<close> yields the
  stored list object when the sender is a key, and a fresh empty list otherwise;
  \<open>receivers.append\<close> then writes to whichever list that is. The function returns the
  list the loop iterates over together with the subscription table after the append.
\<close>

definition resolve_receivers ::
  "'c AsyncMessage \<Rightarrow> (string \<rightharpoonup> string list) \<Rightarrow> string list \<times> (string \<rightharpoonup> string list)" where
  "resolve_receivers message subs =
     (case subs (sender message) of
        None \<Rightarrow> (if receiver message \<noteq> [] then [receiver message] else [], subs)
      | Some stored \<Rightarrow>
          (if receiver message \<noteq> []
           then (stored @ [receiver message], subs(sender message \<mapsto> stored @ [receiver message]))
           else (stored, subs)))"

text \<open>
  Lines 46 to 52: one \<open>put\<close> task per receiver that is a key of \<open>queues\<close>, in the order
  of the list; a receiver that is not a key gets no task. Line 55: the tasks run; each
  appends the message to its queue (a \<open>put\<close> on an unbounded queue never waits).
\<close>

definition create_tasks :: "string list \<Rightarrow> (string \<rightharpoonup> 'm list) \<Rightarrow> string list" where
  "create_tasks receivers qs = filter (\<lambda>r. qs r \<noteq> None) receivers"

definition put :: "'m \<Rightarrow> string \<Rightarrow> (string \<rightharpoonup> 'm list) \<Rightarrow> (string \<rightharpoonup> 'm list)" where
  "put message r qs = (case qs r of None \<Rightarrow> qs | Some q \<Rightarrow> qs(r \<mapsto> q @ [message]))"

definition gather :: "'m \<Rightarrow> string list \<Rightarrow> (string \<rightharpoonup> 'm list) \<Rightarrow> (string \<rightharpoonup> 'm list)" where
  "gather message tasks qs = fold (put message) tasks qs"

text \<open>
  \<open>publish\<close> returns \<open>True\<close> at line 58; \<open>False\<close> is returned only by the handler of an
  exception, and none of the steps above raises.
\<close>

definition publish :: "'c AsyncMessage \<Rightarrow> 'c AsyncMessageQueue \<Rightarrow> bool \<times> 'c AsyncMessageQueue" where
  "publish message st =
     (let (receivers, subs') = resolve_receivers message (subscribers st);
          tasks = create_tasks receivers (queues st);
          qs' = (if tasks \<noteq> [] then gather message tasks (queues st) else queues st)
      in (True, st\<lparr>queues := qs', subscribers := subs'\<rparr>))"

text \<open>
  Awaiting: a call is \<open>Done\<close> with a value, has \<open>Raised\<close> an exception, or is \<open>Pending\<close>:
  suspended with nothing in the present state that would resume it.
  \<open>Queue.get\<close> takes the oldest message, or suspends on an empty queue until a \<open>put\<close>.
  \<open>asyncio.wait_for\<close> passes a finished call on and raises \<open>TimeoutError\<close> for one that
  is still suspended when the time is up; with a timeout that is not positive it cancels
  the call before it starts and raises \<open>TimeoutError\<close>. Each operation is one atomic
  step: no other task delivers while it waits.
\<close>

datatype error = TimeoutError

datatype 'a awaited = Done 'a | Raised error | Pending

definition Queue_get :: "'m list \<Rightarrow> ('m \<times> 'm list) awaited" where
  "Queue_get q = (case q of [] \<Rightarrow> Pending | x # xs \<Rightarrow> Done (x, xs))"

definition wait_for :: "'a awaited \<Rightarrow> real \<Rightarrow> 'a awaited" where
  "wait_for call timeout =
     (if timeout \<le> 0 then Raised TimeoutError
      else (case call of Pending \<Rightarrow> Raised TimeoutError | _ \<Rightarrow> call))"

text \<open>
  Python's truth value of an \<open>Optional[float]\<close>, which \<open>if timeout:\<close> tests: \<open>None\<close> and
  zero are false. Both handlers of \<open>get_message\<close> return \<open>None\<close>: the inner one for the
  \<open>TimeoutError\<close> of \<open>wait_for\<close>, the outer one for any other exception.
\<close>

fun truthy :: "real option \<Rightarrow> bool" where
  "truthy None = False"
| "truthy (Some t) = (t \<noteq> 0)"

definition get_message ::
  "string \<Rightarrow> real option \<Rightarrow> 'c AsyncMessageQueue \<Rightarrow> 'c AsyncMessage option awaited \<times> 'c AsyncMessageQueue" where
  "get_message agent_id timeout st =
     (case queues st agent_id of
        None \<Rightarrow> (Done None, st)
      | Some q \<Rightarrow>
          (case (if truthy timeout
                 then (case timeout of Some t \<Rightarrow> wait_for (Queue_get q) t | None \<Rightarrow> Queue_get q)
                 else Queue_get q) of
             Done (message, rest) \<Rightarrow> (Done (Some message), st\<lparr>queues := (queues st)(agent_id \<mapsto> rest)\<rparr>)
           | Raised e \<Rightarrow> (Done None, st)
           | Pending \<Rightarrow> (Pending, st)))"

text \<open>
  The loop of \<open>get_all_messages\<close>. \<open>self.queues[agent_id]\<close> indexes the \<open>defaultdict\<close>, so
  a missing agent gets an empty queue. An \<open>AsyncMessage\<close> is always true in
  \<open>if message:\<close>; \<open>None\<close> is not appended.
\<close>

definition pending_count :: "string \<Rightarrow> 'c AsyncMessageQueue \<Rightarrow> nat" where
  "pending_count agent_id st = (case queues st agent_id of None \<Rightarrow> 0 | Some q \<Rightarrow> length q)"

function drain ::
  "string \<Rightarrow> 'c AsyncMessage list \<Rightarrow> 'c AsyncMessageQueue
     \<Rightarrow> 'c AsyncMessage list awaited \<times> 'c AsyncMessageQueue" where
  "drain agent_id messages st =
     (case defaultdict_getitem (queues st) agent_id of
        (q, qs) \<Rightarrow>
          if q = [] then (Done messages, st\<lparr>queues := qs\<rparr>)
          else (case get_message agent_id None (st\<lparr>queues := qs\<rparr>) of
                  (Done (Some message), st') \<Rightarrow> drain agent_id (messages @ [message]) st'
                | (Done None, st') \<Rightarrow> drain agent_id messages st'
                | (Raised e, st') \<Rightarrow> (Raised e, st')
                | (Pending, st') \<Rightarrow> (Pending, st')))"
  by pat_completeness auto
termination
  apply (relation "measure (\<lambda>(agent_id, messages, st). pending_count agent_id st)")
  subgoal by simp
  subgoal
    by (auto simp: defaultdict_getitem_def get_message_def Queue_get_def pending_count_def
             split: option.splits list.splits)
  subgoal
    by (auto simp: defaultdict_getitem_def get_message_def Queue_get_def pending_count_def
             split: option.splits list.splits)
  done

declare drain.simps [simp del]

definition get_all_messages ::
  "string \<Rightarrow> 'c AsyncMessageQueue \<Rightarrow> 'c AsyncMessage list awaited \<times> 'c AsyncMessageQueue" where
  "get_all_messages agent_id st = drain agent_id [] st"

definition stop :: "'c AsyncMessageQueue \<Rightarrow> 'c AsyncMessageQueue" where
  "stop st = st\<lparr>running := False\<rparr>"

text \<open>
  A session's sequence of calls on the queue, run from left to right; each call is one
  atomic step and leaves the state it returns with.
\<close>

datatype 'c queue_op =
  Register string
| Subscribe string string
| Publish "'c AsyncMessage"
| GetMessage string "real option"
| GetAllMessages string
| Stop

fun queue_step :: "'c queue_op \<Rightarrow> 'c AsyncMessageQueue \<Rightarrow> 'c AsyncMessageQueue" where
  "queue_step (Register agent_id) st = register_agent agent_id st"
| "queue_step (Subscribe subscriber publisher) st = subscribe subscriber publisher st"
| "queue_step (Publish message) st = snd (publish message st)"
| "queue_step (GetMessage agent_id timeout) st = snd (get_message agent_id timeout st)"
| "queue_step (GetAllMessages agent_id) st = snd (get_all_messages agent_id st)"
| "queue_step Stop st = stop st"

definition run_queue :: "'c queue_op list \<Rightarrow> 'c AsyncMessageQueue \<Rightarrow> 'c AsyncMessageQueue" where
  "run_queue ops st = fold queue_step ops st"

text \<open>\<open>listed r s st\<close>: the agent \<open>r\<close> is in the subscriber list stored for the sender \<open>s\<close>.\<close>

definition listed :: "string \<Rightarrow> string \<Rightarrow> 'c AsyncMessageQueue \<Rightarrow> bool" where
  "listed r s st = (case subscribers st s of None \<Rightarrow> False | Some subs \<Rightarrow> r \<in> set subs)"

section \<open>Flow coordinator (src/flow/coordinator.py)\<close>

text \<open>
  A flow is the dictionary that \<open>start_flow\<close> stores under the flow id, with the four
  keys \<open>status\<close>, \<open>document\<close>, \<open>steps_completed\<close> and \<open>current_step\<close>.
  \<open>active_flows\<close> is a Python dict from flow ids to such dictionaries.
\<close>

record Flow =
  status :: string
  document :: string
  steps_completed :: "string list"
  current_step :: string

record 'c FlowCoordinator =
  comm :: "'c AgentCommunication"
  active_flows :: "string \<rightharpoonup> Flow"

definition init_coordinator :: "'c FlowCoordinator" where
  "init_coordinator = \<lparr>comm = init_comm, active_flows = Map.empty\<rparr>"

definition start_flow :: "string \<Rightarrow> string \<Rightarrow> 'c FlowCoordinator \<Rightarrow> 'c FlowCoordinator" where
  "start_flow flow_id document_path c =
     c\<lparr>active_flows := (active_flows c)(flow_id \<mapsto>
         \<lparr>status = ''started'', document = document_path,
          steps_completed = [], current_step = ''parsing''\<rparr>)\<rparr>"

definition update_flow ::
  "string \<Rightarrow> string \<Rightarrow> string \<Rightarrow> 'c FlowCoordinator \<Rightarrow> 'c FlowCoordinator" where
  "update_flow flow_id new_status step c =
     (case active_flows c flow_id of
        None \<Rightarrow> c
      | Some f \<Rightarrow>
          c\<lparr>active_flows := (active_flows c)(flow_id \<mapsto>
              f\<lparr>status := new_status, steps_completed := steps_completed f @ [step]\<rparr>)\<rparr>)"

text \<open>\<open>get_flow_status\<close> reads only; \<open>None\<close> stands for the empty dictionary it returns
  for an unknown id.\<close>

definition get_flow_status :: "string \<Rightarrow> 'c FlowCoordinator \<Rightarrow> Flow option" where
  "get_flow_status flow_id c = active_flows c flow_id"

text \<open>A caller's sequence of coordinator operations, run from left to right.\<close>

datatype flow_op =
  StartFlow string string
| UpdateFlow string string string
| GetFlowStatus string

fun flow_step :: "flow_op \<Rightarrow> 'c FlowCoordinator \<Rightarrow> 'c FlowCoordinator" where
  "flow_step (StartFlow flow_id document_path) c = start_flow flow_id document_path c"
| "flow_step (UpdateFlow flow_id new_status step) c = update_flow flow_id new_status step c"
| "flow_step (GetFlowStatus flow_id) c = c"

definition run_flow :: "flow_op list \<Rightarrow> 'c FlowCoordinator \<Rightarrow> 'c FlowCoordinator" where
  "run_flow ops c = fold flow_step ops c"

fun restarts :: "string \<Rightarrow> flow_op \<Rightarrow> bool" where
  "restarts flow_id (StartFlow flow_id' document_path) = (flow_id' = flow_id)"
| "restarts flow_id _ = False"

section \<open>Delivery and draining: auxiliary facts\<close>

lemma gather_if:
  "(if tasks \<noteq> [] then gather m tasks qs else qs) = gather m tasks qs"
  by (simp add: gather_def)

lemma put_lookup:
  "put m t qs r = (case qs r of None \<Rightarrow> None
                   | Some q \<Rightarrow> Some (if r = t then q @ [m] else q))"
  by (simp add: put_def split: option.splits)

lemma gather_lookup:
  "gather m tasks qs r =
     (case qs r of None \<Rightarrow> None | Some q \<Rightarrow> Some (q @ replicate (count_list tasks r) m))"
proof (induction tasks arbitrary: qs)
  case Nil
  then show ?case by (simp add: gather_def split: option.splits)
next
  case (Cons t tasks)
  have "gather m (t # tasks) qs r = gather m tasks (put m t qs) r"
    by (simp add: gather_def)
  also have "\<dots> = (case put m t qs r of None \<Rightarrow> None
                    | Some q \<Rightarrow> Some (q @ replicate (count_list tasks r) m))"
    by (rule Cons.IH)
  finally show ?case
    by (simp add: put_lookup replicate_app_Cons_same split: option.splits)
qed

lemma count_list_create_tasks:
  "qs r \<noteq> None \<Longrightarrow> count_list (create_tasks receivers qs) r = count_list receivers r"
  by (induction receivers) (simp_all add: create_tasks_def)

lemma publish_queues:
  "queues (snd (publish m st)) r =
     (case queues st r of None \<Rightarrow> None
      | Some q \<Rightarrow> Some (q @ replicate (count_list (fst (resolve_receivers m (subscribers st))) r) m))"
proof (cases "queues st r")
  case None
  then show ?thesis
    by (simp add: publish_def Let_def gather_if gather_lookup split: prod.splits)
next
  case (Some q)
  then have "count_list (create_tasks rs (queues st)) r = count_list rs r" for rs
    by (simp add: count_list_create_tasks)
  with Some show ?thesis
    by (simp add: publish_def Let_def gather_if gather_lookup split: prod.splits)
qed

lemma publish_subscribers:
  "subscribers (snd (publish m st)) = snd (resolve_receivers m (subscribers st))"
  by (simp add: publish_def Let_def split: prod.splits)

lemma publish_result: "fst (publish m st) = True"
  by (simp add: publish_def Let_def split: prod.splits)

lemma drain_registered:
  "queues st a = Some q \<Longrightarrow>
   drain a acc st = (Done (acc @ q), st\<lparr>queues := (queues st)(a \<mapsto> [])\<rparr>)"
proof (induction q arbitrary: acc st)
  case Nil
  then have "(queues st)(a \<mapsto> []) = queues st" by (simp add: map_upd_triv)
  with Nil show ?case
    by (subst drain.simps) (simp add: defaultdict_getitem_def)
next
  case (Cons x xs)
  let ?st' = "st\<lparr>queues := (queues st)(a \<mapsto> xs)\<rparr>"
  have g: "get_message a None st = (Done (Some x), ?st')"
    using Cons.prems by (simp add: get_message_def Queue_get_def)
  have "drain a acc st = drain a (acc @ [x]) ?st'"
    using Cons.prems g by (subst drain.simps) (simp add: defaultdict_getitem_def)
  also have "\<dots> = (Done ((acc @ [x]) @ xs), ?st'\<lparr>queues := (queues ?st')(a \<mapsto> [])\<rparr>)"
    by (rule Cons.IH) simp
  also have "?st'\<lparr>queues := (queues ?st')(a \<mapsto> [])\<rparr> = st\<lparr>queues := (queues st)(a \<mapsto> [])\<rparr>"
    by simp
  finally show ?case by (simp only: append_assoc append_Cons append_Nil)
qed

lemma count_list_distinct:
  "distinct xs \<Longrightarrow> x \<in> set xs \<Longrightarrow> count_list xs x = 1"
  by (induction xs) auto

lemma create_tasks_single:
  "create_tasks [r] qs = (if qs r = None then [] else [r])"
  by (simp add: create_tasks_def)

lemma get_message_registered:
  "queues st agent_id = Some q \<Longrightarrow>
   get_message agent_id timeout st =
     (case q of
        [] \<Rightarrow> (if truthy timeout then (Done None, st) else (Pending, st))
      | x # xs \<Rightarrow>
          (if truthy timeout \<and> (\<exists>t. timeout = Some t \<and> t < 0) then (Done None, st)
           else (Done (Some x), st\<lparr>queues := (queues st)(agent_id \<mapsto> xs)\<rparr>)))"
  by (cases timeout; cases q)
     (auto simp add: get_message_def Queue_get_def wait_for_def)

lemma drain_unregistered:
  "queues st a = None \<Longrightarrow>
   drain a acc st = (Done acc, st\<lparr>queues := (queues st)(a \<mapsto> [])\<rparr>)"
  by (subst drain.simps) (simp add: defaultdict_getitem_def)

lemma get_all_messages_subscribers:
  "subscribers (snd (get_all_messages a st)) = subscribers st"
  by (cases "queues st a")
     (simp_all add: get_all_messages_def drain_unregistered drain_registered)

lemma get_message_subscribers:
  "subscribers (snd (get_message a t st)) = subscribers st"
  by (simp add: get_message_def split: option.splits awaited.splits prod.splits)

lemma listed_step: "listed r s st \<Longrightarrow> listed r s (queue_step op st)"
proof (cases op)
  case (Subscribe x p)
  assume "listed r s st"
  then show ?thesis
    by (auto simp: Subscribe listed_def subscribe_def defaultdict_getitem_def
             split: option.splits)
next
  case (Publish m)
  assume "listed r s st"
  then show ?thesis
    by (auto simp: Publish listed_def publish_subscribers resolve_receivers_def
             split: option.splits)
qed (simp_all add: listed_def register_agent_def get_message_subscribers
       get_all_messages_subscribers stop_def)

lemma listed_run: "listed r s st \<Longrightarrow> listed r s (run_queue ops st)"
  unfolding run_queue_def
  by (induction ops arbitrary: st) (simp_all add: listed_step)

lemma count_list_pos: "x \<in> set xs \<Longrightarrow> 0 < count_list xs x"
  by (induction xs) auto

lemma listed_resolve:
  "listed r (sender m) st \<Longrightarrow> r \<in> set (fst (resolve_receivers m (subscribers st)))"
  by (auto simp: listed_def resolve_receivers_def split: option.splits)

lemma flow_step_grows:
  assumes "active_flows c flow_id = Some f" and "\<not> restarts flow_id op"
  shows "\<exists>f'. active_flows (flow_step op c) flow_id = Some f'
              \<and> prefix (steps_completed f) (steps_completed f')"
proof (cases op)
  case (StartFlow i d)
  with assms show ?thesis by (simp add: start_flow_def)
next
  case (UpdateFlow i s step)
  with assms show ?thesis
    by (cases "i = flow_id") (auto simp: update_flow_def split: option.splits)
next
  case (GetFlowStatus i)
  with assms show ?thesis by simp
qed

lemma run_flow_grows:
  assumes "active_flows c flow_id = Some f" and "\<forall>op \<in> set ops. \<not> restarts flow_id op"
  shows "\<exists>f'. active_flows (run_flow ops c) flow_id = Some f'
              \<and> prefix (steps_completed f) (steps_completed f')"
  using assms
proof (induction ops arbitrary: c f)
  case Nil
  then show ?case by (simp add: run_flow_def)
next
  case (Cons op ops)
  from Cons.prems obtain g where g: "active_flows (flow_step op c) flow_id = Some g"
    and pg: "prefix (steps_completed f) (steps_completed g)"
    using flow_step_grows [of c flow_id f op] by auto
  from Cons.IH [OF g] Cons.prems(2)
  obtain f' where f': "active_flows (run_flow ops (flow_step op c)) flow_id = Some f'"
    and pf: "prefix (steps_completed g) (steps_completed f')" by auto
  from pg pf have "prefix (steps_completed f) (steps_completed f')" by (rule prefix_order.trans)
  with f' show ?case by (simp add: run_flow_def)
qed

section \<open>Results about the flow coordinator\<close>

text \<open>
  C8. For a flow id that is not a key of the coordinator's flow map, \<open>update_flow\<close>
  returns normally (it is a total function with no error branch), creates no flow and
  leaves the whole coordinator, its flow map included, as it was.
\<close>

theorem update_flow_missing_ignored:
  assumes "active_flows c flow_id = None"
  shows "update_flow flow_id new_status step c = c
       \<and> active_flows (update_flow flow_id new_status step c) flow_id = None"
  using assms by (simp add: update_flow_def)

theorem update_flow_missing_ignored_witness:
  "active_flows (start_flow ''f1'' ''doc.pdf'' (init_coordinator :: unit FlowCoordinator)) ''missing-id'' = None
   \<and> update_flow ''missing-id'' ''parsed'' ''parsing''
        (start_flow ''f1'' ''doc.pdf'' (init_coordinator :: unit FlowCoordinator))
       = start_flow ''f1'' ''doc.pdf'' init_coordinator
   \<and> get_flow_status ''missing-id''
        (update_flow ''missing-id'' ''parsed'' ''parsing''
           (start_flow ''f1'' ''doc.pdf'' (init_coordinator :: unit FlowCoordinator))) = None"
proof -
  have h: "active_flows (start_flow ''f1'' ''doc.pdf'' (init_coordinator :: unit FlowCoordinator))
             ''missing-id'' = None"
    by (simp add: start_flow_def init_coordinator_def)
  from update_flow_missing_ignored
         [of "start_flow ''f1'' ''doc.pdf'' (init_coordinator :: unit FlowCoordinator)"
             "''missing-id''" "''parsed''" "''parsing''", OF h] h
  show ?thesis by (simp add: get_flow_status_def)
qed

text \<open>
  C5, as the specification states it, fails: \<open>start_flow\<close> on the id of an existing flow
  stores a fresh flow under that id, so the completed step \<open>parsing\<close> of flow \<open>f1\<close> is
  gone after the second \<open>start_flow\<close>.
\<close>

theorem start_flow_resets_steps_counterexample:
  "active_flows (update_flow ''f1'' ''parsed'' ''parsing''
       (start_flow ''f1'' ''doc.pdf'' (init_coordinator :: unit FlowCoordinator))) ''f1''
     = Some \<lparr>status = ''parsed'', document = ''doc.pdf'',
             steps_completed = [''parsing''], current_step = ''parsing''\<rparr>
   \<and> active_flows (start_flow ''f1'' ''doc.pdf''
       (update_flow ''f1'' ''parsed'' ''parsing''
          (start_flow ''f1'' ''doc.pdf'' (init_coordinator :: unit FlowCoordinator)))) ''f1''
     = Some \<lparr>status = ''started'', document = ''doc.pdf'',
             steps_completed = [], current_step = ''parsing''\<rparr>
   \<and> \<not> prefix [''parsing''] ([] :: string list)"
  by (simp add: update_flow_def start_flow_def init_coordinator_def)

text \<open>
  C5, amended. Along any sequence of coordinator operations that does not call
  \<open>start_flow\<close> with the id of an existing flow again, the flow stays present and its
  \<open>steps_completed\<close> before the sequence is a prefix of the one after it: \<open>update_flow\<close>
  appends one step at the end and \<open>get_flow_status\<close> changes nothing. \<open>start_flow\<close> with
  that id replaces the flow by a fresh one with no completed step.
\<close>

theorem steps_completed_grows_without_restart:
  assumes "active_flows c flow_id = Some f"
    and "\<forall>op \<in> set ops. \<not> restarts flow_id op"
  shows "(\<exists>f'. active_flows (run_flow ops c) flow_id = Some f'
              \<and> prefix (steps_completed f) (steps_completed f'))
       \<and> active_flows (update_flow flow_id new_status step c) flow_id
           = Some (f\<lparr>status := new_status, steps_completed := steps_completed f @ [step]\<rparr>)
       \<and> get_flow_status flow_id c = Some f
       \<and> active_flows (start_flow flow_id document_path c) flow_id
           = Some \<lparr>status = ''started'', document = document_path,
                   steps_completed = [], current_step = ''parsing''\<rparr>"
  using run_flow_grows [OF assms] assms(1)
  by (simp add: update_flow_def get_flow_status_def start_flow_def)

theorem steps_completed_grows_without_restart_witness:
  "active_flows (start_flow ''f1'' ''doc.pdf'' (init_coordinator :: unit FlowCoordinator)) ''f1''
     = Some \<lparr>status = ''started'', document = ''doc.pdf'',
             steps_completed = [], current_step = ''parsing''\<rparr>
   \<and> \<not> restarts ''f1'' (UpdateFlow ''f1'' ''parsed'' ''parsing'')
   \<and> \<not> restarts ''f1'' (StartFlow ''f2'' ''other.pdf'')
   \<and> \<not> restarts ''f1'' (GetFlowStatus ''f1'')
   \<and> (\<exists>f'. active_flows
          (run_flow [UpdateFlow ''f1'' ''parsed'' ''parsing'', StartFlow ''f2'' ''other.pdf'',
                     GetFlowStatus ''f1'']
             (start_flow ''f1'' ''doc.pdf'' (init_coordinator :: unit FlowCoordinator))) ''f1'' = Some f'
          \<and> prefix [] (steps_completed f'))
   \<and> active_flows
          (run_flow [UpdateFlow ''f1'' ''parsed'' ''parsing'', StartFlow ''f2'' ''other.pdf'',
                     GetFlowStatus ''f1'']
             (start_flow ''f1'' ''doc.pdf'' (init_coordinator :: unit FlowCoordinator))) ''f1''
     = Some \<lparr>status = ''parsed'', document = ''doc.pdf'',
             steps_completed = [''parsing''], current_step = ''parsing''\<rparr>"
proof -
  let ?c = "start_flow ''f1'' ''doc.pdf'' (init_coordinator :: unit FlowCoordinator)"
  let ?ops = "[UpdateFlow ''f1'' ''parsed'' ''parsing'', StartFlow ''f2'' ''other.pdf'',
               GetFlowStatus ''f1'']"
  let ?f = "\<lparr>status = ''started'', document = ''doc.pdf'',
             steps_completed = [], current_step = ''parsing''\<rparr>"
  have h: "active_flows ?c ''f1'' = Some ?f"
    by (simp add: start_flow_def init_coordinator_def)
  have n: "\<forall>op \<in> set ?ops. \<not> restarts ''f1'' op" by simp
  have v: "active_flows (run_flow ?ops ?c) ''f1''
     = Some \<lparr>status = ''parsed'', document = ''doc.pdf'',
             steps_completed = [''parsing''], current_step = ''parsing''\<rparr>"
    by (simp add: run_flow_def update_flow_def start_flow_def init_coordinator_def)
  from steps_completed_grows_without_restart [OF h n] h v
  show ?thesis by simp
qed

section \<open>Results about the message types\<close>

text \<open>
  C9, as the specification states it, fails: \<open>AsyncMessage\<close> declares a field \<open>id\<close> and
  \<open>Message\<close> declares no field of that name.
\<close>

theorem message_shapes_differ_counterexample:
  "''id'' \<in> set (field_names AsyncMessage_fields)
   \<and> ''id'' \<notin> set (field_names Message_fields)"
  by (simp add: field_names_def AsyncMessage_fields_def Message_fields_def)

text \<open>
  C9, amended. The declaration of \<open>AsyncMessage\<close> is the required field \<open>id\<close> followed
  by the fields of \<open>Message\<close>, each with the same name, annotation and default and in
  the same order; \<open>id\<close> is the only field name the two types do not share.
\<close>

theorem AsyncMessage_extends_Message:
  "AsyncMessage_fields = (''id'', Str, NoDefault) # Message_fields
   \<and> set Message_fields \<subseteq> set AsyncMessage_fields
   \<and> set (field_names AsyncMessage_fields) - set (field_names Message_fields) = {''id''}"
  by (auto simp add: field_names_def AsyncMessage_fields_def Message_fields_def)

section \<open>Results about the message queue\<close>

text \<open>
  C7. For an agent that is a key of \<open>queues\<close>, \<open>get_all_messages\<close> finishes (it is
  \<open>Done\<close>, neither raising nor left pending), returns every queued message in queue
  order (oldest first, the order in which deliveries appended them) and leaves the
  agent's queue empty; a second call right after it returns the empty list and changes
  nothing.
\<close>

theorem get_all_messages_drains_fifo:
  assumes "queues st agent_id = Some q"
  shows "get_all_messages agent_id st = (Done q, st\<lparr>queues := (queues st)(agent_id \<mapsto> [])\<rparr>)
       \<and> get_all_messages agent_id (snd (get_all_messages agent_id st))
           = (Done [], snd (get_all_messages agent_id st))"
proof -
  let ?st' = "st\<lparr>queues := (queues st)(agent_id \<mapsto> [])\<rparr>"
  have first: "get_all_messages agent_id st = (Done q, ?st')"
    using drain_registered [OF assms, of "[]"] by (simp add: get_all_messages_def)
  have "queues ?st' agent_id = Some []" by simp
  from drain_registered [OF this, of "[]"]
  have "get_all_messages agent_id ?st' = (Done [], ?st')"
    by (simp add: get_all_messages_def)
  with first show ?thesis by simp
qed

theorem get_all_messages_drains_fifo_witness:
  "queues (snd (publish \<lparr>msg_id = ''2'', sender = ''S'', receiver = ''A'', content = (), message_type = ''data'', metadata = None\<rparr>
            (snd (publish \<lparr>msg_id = ''1'', sender = ''S'', receiver = ''A'', content = (), message_type = ''data'', metadata = None\<rparr>
               (register_agent ''A'' (init_queue :: unit AsyncMessageQueue)))))) ''A''
   = Some [\<lparr>msg_id = ''1'', sender = ''S'', receiver = ''A'', content = (), message_type = ''data'', metadata = None\<rparr>,
           \<lparr>msg_id = ''2'', sender = ''S'', receiver = ''A'', content = (), message_type = ''data'', metadata = None\<rparr>]
   \<and> fst (get_all_messages ''A''
        (snd (publish \<lparr>msg_id = ''2'', sender = ''S'', receiver = ''A'', content = (), message_type = ''data'', metadata = None\<rparr>
            (snd (publish \<lparr>msg_id = ''1'', sender = ''S'', receiver = ''A'', content = (), message_type = ''data'', metadata = None\<rparr>
               (register_agent ''A'' (init_queue :: unit AsyncMessageQueue)))))))
   = Done [\<lparr>msg_id = ''1'', sender = ''S'', receiver = ''A'', content = (), message_type = ''data'', metadata = None\<rparr>,
           \<lparr>msg_id = ''2'', sender = ''S'', receiver = ''A'', content = (), message_type = ''data'', metadata = None\<rparr>]"
proof -
  let ?m1 = "\<lparr>msg_id = ''1'', sender = ''S'', receiver = ''A'', content = (), message_type = ''data'', metadata = None\<rparr>"
  let ?m2 = "\<lparr>msg_id = ''2'', sender = ''S'', receiver = ''A'', content = (), message_type = ''data'', metadata = None\<rparr>"
  let ?st = "snd (publish ?m2 (snd (publish ?m1 (register_agent ''A'' (init_queue :: unit AsyncMessageQueue)))))"
  have h: "queues ?st ''A'' = Some [?m1, ?m2]"
    by (simp add: publish_queues publish_subscribers resolve_receivers_def register_agent_def init_queue_def)
  from get_all_messages_drains_fifo [OF h] h show ?thesis by simp
qed

text \<open>
  C3, as the specification states it, fails: with an explicit receiver that is not
  registered and no subscriber, a target was resolved, no delivery took place, and the
  result is still \<open>True\<close>.
\<close>

theorem publish_true_without_delivery_counterexample:
  "fst (resolve_receivers
          \<lparr>msg_id = ''1'', sender = ''S'', receiver = ''ghost'', content = (), message_type = ''data'', metadata = None\<rparr>
          (subscribers (register_agent ''S'' (init_queue :: unit AsyncMessageQueue)))) = [''ghost'']
   \<and> create_tasks [''ghost''] (queues (register_agent ''S'' (init_queue :: unit AsyncMessageQueue))) = []
   \<and> fst (publish
          \<lparr>msg_id = ''1'', sender = ''S'', receiver = ''ghost'', content = (), message_type = ''data'', metadata = None\<rparr>
          (register_agent ''S'' (init_queue :: unit AsyncMessageQueue))) \<noteq> False"
  by (simp add: publish_result resolve_receivers_def create_tasks_def register_agent_def init_queue_def)

text \<open>
  C3, amended. \<open>publish\<close> returns \<open>True\<close> on every call, whether or not any delivery
  took place; when no resolved target is registered, every mailbox is left as it was.
\<close>

theorem publish_returns_True:
  "fst (publish message st) = True
   \<and> (create_tasks (fst (resolve_receivers message (subscribers st))) (queues st) = []
        \<longrightarrow> queues (snd (publish message st)) = queues st)"
  by (simp add: publish_def Let_def split: prod.splits)

theorem publish_returns_True_witness:
  "create_tasks (fst (resolve_receivers
          \<lparr>msg_id = ''1'', sender = ''S'', receiver = ''ghost'', content = (), message_type = ''data'', metadata = None\<rparr>
          (subscribers (register_agent ''S'' (init_queue :: unit AsyncMessageQueue)))))
      (queues (register_agent ''S'' (init_queue :: unit AsyncMessageQueue))) = []
   \<and> fst (publish
          \<lparr>msg_id = ''1'', sender = ''S'', receiver = ''ghost'', content = (), message_type = ''data'', metadata = None\<rparr>
          (register_agent ''S'' (init_queue :: unit AsyncMessageQueue))) = True
   \<and> queues (snd (publish
          \<lparr>msg_id = ''1'', sender = ''S'', receiver = ''ghost'', content = (), message_type = ''data'', metadata = None\<rparr>
          (register_agent ''S'' (init_queue :: unit AsyncMessageQueue)))) = queues (register_agent ''S'' (init_queue :: unit AsyncMessageQueue))"
proof -
  let ?m = "\<lparr>msg_id = ''1'', sender = ''S'', receiver = ''ghost'', content = (), message_type = ''data'', metadata = None\<rparr>"
  let ?st = "register_agent ''S'' (init_queue :: unit AsyncMessageQueue)"
  have h: "create_tasks (fst (resolve_receivers ?m (subscribers ?st))) (queues ?st) = []"
    by (simp add: resolve_receivers_def create_tasks_def register_agent_def init_queue_def)
  from publish_returns_True [of ?m ?st] h show ?thesis by simp
qed

text \<open>
  C4, as the specification states it, fails: publishing to an explicit receiver that was
  never registered raises nothing. The call returns \<open>True\<close> and the state is the one
  before the call; no mailbox is created for the receiver.
\<close>

theorem publish_unregistered_receiver_counterexample:
  "publish
     \<lparr>msg_id = ''1'', sender = ''S'', receiver = ''ghost'', content = (), message_type = ''data'', metadata = None\<rparr>
     (register_agent ''S'' (init_queue :: unit AsyncMessageQueue))
   = (True, register_agent ''S'' (init_queue :: unit AsyncMessageQueue))
   \<and> queues (register_agent ''S'' (init_queue :: unit AsyncMessageQueue)) ''ghost'' = None"
  by (simp add: publish_def resolve_receivers_def create_tasks_def register_agent_def init_queue_def)

text \<open>
  C4, amended. A target that is not a key of \<open>queues\<close> gets no \<open>put\<close> task: it is
  skipped without an error, stays unregistered, and \<open>publish\<close> still returns \<open>True\<close>.
  A target that is registered has the message appended to the tail of its mailbox, once
  for each time it occurs in the list of receivers.
\<close>

theorem delivery_skips_unregistered_appends_to_tail:
  "(qs r = None \<longrightarrow> create_tasks [r] qs = [] \<and> gather message (create_tasks [r] qs) qs = qs)
   \<and> (qs r = Some q \<longrightarrow> gather message (create_tasks [r] qs) qs = qs(r \<mapsto> q @ [message]))
   \<and> fst (publish message st) = True
   \<and> (queues st r = None \<longrightarrow> queues (snd (publish message st)) r = None)
   \<and> (queues st r = Some q \<longrightarrow>
        queues (snd (publish message st)) r =
          Some (q @ replicate (count_list (fst (resolve_receivers message (subscribers st))) r) message))"
  by (simp add: create_tasks_single gather_def put_def publish_result publish_queues)

theorem delivery_skips_unregistered_appends_to_tail_witness:
  "queues (register_agent ''A'' (init_queue :: unit AsyncMessageQueue)) ''A'' = Some []
   \<and> queues (register_agent ''A'' (init_queue :: unit AsyncMessageQueue)) ''ghost'' = None
   \<and> queues (snd (publish
        \<lparr>msg_id = ''1'', sender = ''S'', receiver = ''A'', content = (), message_type = ''data'', metadata = None\<rparr>
        (register_agent ''A'' (init_queue :: unit AsyncMessageQueue)))) ''A''
      = Some [\<lparr>msg_id = ''1'', sender = ''S'', receiver = ''A'', content = (), message_type = ''data'', metadata = None\<rparr>]
   \<and> queues (snd (publish
        \<lparr>msg_id = ''1'', sender = ''S'', receiver = ''A'', content = (), message_type = ''data'', metadata = None\<rparr>
        (register_agent ''A'' (init_queue :: unit AsyncMessageQueue)))) ''ghost'' = None"
proof -
  let ?m = "\<lparr>msg_id = ''1'', sender = ''S'', receiver = ''A'', content = (), message_type = ''data'', metadata = None\<rparr>"
  let ?st = "register_agent ''A'' (init_queue :: unit AsyncMessageQueue)"
  have a: "queues ?st ''A'' = Some []" and g: "queues ?st ''ghost'' = None"
    by (simp_all add: register_agent_def init_queue_def)
  have r: "fst (resolve_receivers ?m (subscribers ?st)) = [''A'']"
    by (simp add: resolve_receivers_def register_agent_def init_queue_def)
  from delivery_skips_unregistered_appends_to_tail [of "queues ?st" "''A''" ?m "[]" ?st]
       delivery_skips_unregistered_appends_to_tail [of "queues ?st" "''ghost''" ?m "[]" ?st]
       a g r
  show ?thesis by simp
qed

text \<open>
  C1, as the specification states it, fails: \<open>R\<close> is registered and subscribed to
  \<open>S\<close>; one publish from \<open>S\<close> with explicit receiver \<open>R\<close> leaves two copies of the
  message in the mailbox of \<open>R\<close>.
\<close>

theorem publish_duplicate_copy_counterexample:
  "queues (snd (publish
      \<lparr>msg_id = ''1'', sender = ''S'', receiver = ''R'', content = (), message_type = ''data'', metadata = None\<rparr>
      (subscribe ''R'' ''S'' (register_agent ''R'' (init_queue :: unit AsyncMessageQueue))))) ''R''
   = Some [\<lparr>msg_id = ''1'', sender = ''S'', receiver = ''R'', content = (), message_type = ''data'', metadata = None\<rparr>,
           \<lparr>msg_id = ''1'', sender = ''S'', receiver = ''R'', content = (), message_type = ''data'', metadata = None\<rparr>]"
  by (simp add: publish_queues resolve_receivers_def subscribe_def defaultdict_getitem_def
        register_agent_def init_queue_def)

text \<open>
  C1, amended. The receivers of a publish are the sender's stored subscriber list
  followed by the explicit receiver, with no deduplication. A registered explicit
  receiver that is also in the subscriber list gets one copy for each of its occurrences
  in the subscriber list and one more as explicit receiver: two copies when the
  subscriber list names it once.
\<close>

theorem publish_copy_per_target_occurrence:
  assumes "subscribers st (sender message) = Some subs"
    and "receiver message \<noteq> []"
    and "receiver message \<in> set subs"
    and "queues st (receiver message) = Some q"
  shows "queues (snd (publish message st)) (receiver message)
           = Some (q @ replicate (Suc (count_list subs (receiver message))) message)
       \<and> (distinct subs \<longrightarrow>
            queues (snd (publish message st)) (receiver message) = Some (q @ [message, message]))"
proof -
  have "fst (resolve_receivers message (subscribers st)) = subs @ [receiver message]"
    using assms(1,2) by (simp add: resolve_receivers_def)
  then have *: "queues (snd (publish message st)) (receiver message)
           = Some (q @ replicate (Suc (count_list subs (receiver message))) message)"
    using assms(4) by (simp add: publish_queues)
  have "count_list subs (receiver message) = 1" if "distinct subs"
    using that assms(3) by (rule count_list_distinct)
  with * show ?thesis by simp
qed

theorem publish_copy_per_target_occurrence_witness:
  "subscribers (subscribe ''R'' ''S'' (register_agent ''R'' (init_queue :: unit AsyncMessageQueue))) ''S'' = Some [''R'']
   \<and> queues (subscribe ''R'' ''S'' (register_agent ''R'' (init_queue :: unit AsyncMessageQueue))) ''R'' = Some []
   \<and> queues (snd (publish
      \<lparr>msg_id = ''1'', sender = ''S'', receiver = ''R'', content = (), message_type = ''data'', metadata = None\<rparr>
      (subscribe ''R'' ''S'' (register_agent ''R'' (init_queue :: unit AsyncMessageQueue))))) ''R''
   = Some (replicate 2
           \<lparr>msg_id = ''1'', sender = ''S'', receiver = ''R'', content = (), message_type = ''data'', metadata = None\<rparr>)"
proof -
  let ?m = "\<lparr>msg_id = ''1'', sender = ''S'', receiver = ''R'', content = (), message_type = ''data'', metadata = None\<rparr>"
  let ?st = "subscribe ''R'' ''S'' (register_agent ''R'' (init_queue :: unit AsyncMessageQueue))"
  have s: "subscribers ?st (sender ?m) = Some [''R'']"
    by (simp add: subscribe_def defaultdict_getitem_def register_agent_def init_queue_def)
  have q: "queues ?st (receiver ?m) = Some []"
    by (simp add: subscribe_def defaultdict_getitem_def register_agent_def init_queue_def)
  have n: "receiver ?m \<noteq> []" and i: "receiver ?m \<in> set [''R'']" by simp_all
  from publish_copy_per_target_occurrence [OF s n i q] s q
  show ?thesis by (simp add: numeral_2_eq_2)
qed




text \<open>
  C10. For a registered agent with an empty mailbox, \<open>get_message\<close> with timeout 0 is
  left pending, exactly as with an absent timeout, and does not return not-found; once
  a message is put into the mailbox the call returns that message.
\<close>

theorem get_message_zero_timeout_blocks:
  assumes "queues st agent_id = Some []"
  shows "get_message agent_id (Some 0) st = (Pending, st)
       \<and> get_message agent_id (Some 0) st = get_message agent_id None st
       \<and> fst (get_message agent_id (Some 0) st) \<noteq> Done None
       \<and> get_message agent_id (Some 0) (st\<lparr>queues := put message agent_id (queues st)\<rparr>)
              = (Done (Some message), st)"
proof -
  have "st\<lparr>queues := put message agent_id (queues st)\<rparr>\<lparr>queues := (queues st)(agent_id \<mapsto> [])\<rparr> = st"
    using assms by (simp add: map_upd_triv)
  then show ?thesis
    using assms
    by (simp add: get_message_registered put_def get_message_registered [of _ _ "[message]"])
qed

theorem get_message_zero_timeout_blocks_witness:
  "queues (register_agent ''A'' (init_queue :: unit AsyncMessageQueue)) ''A'' = Some []
   \<and> get_message ''A'' (Some 0) (register_agent ''A'' (init_queue :: unit AsyncMessageQueue))
       = (Pending, register_agent ''A'' init_queue)
   \<and> get_message ''A'' (Some 0)
        ((register_agent ''A'' (init_queue :: unit AsyncMessageQueue))
           \<lparr>queues := put \<lparr>msg_id = ''1'', sender = ''S'', receiver = ''A'', content = (), message_type = ''data'', metadata = None\<rparr>
                        ''A'' (queues (register_agent ''A'' (init_queue :: unit AsyncMessageQueue)))\<rparr>)
       = (Done (Some \<lparr>msg_id = ''1'', sender = ''S'', receiver = ''A'', content = (), message_type = ''data'', metadata = None\<rparr>),
          register_agent ''A'' init_queue)"
proof -
  let ?st = "register_agent ''A'' (init_queue :: unit AsyncMessageQueue)"
  let ?m = "\<lparr>msg_id = ''1'', sender = ''S'', receiver = ''A'', content = (), message_type = ''data'', metadata = None\<rparr>"
  have h: "queues ?st ''A'' = Some []"
    by (simp add: register_agent_def init_queue_def)
  from get_message_zero_timeout_blocks [OF h, of ?m] h
  show ?thesis by simp
qed

text \<open>
  C2, as stated, fails in its consequence that every later publish from the sender is
  delivered to the past receiver. \<open>X\<close> is registered and subscribed to \<open>S\<close>; \<open>S\<close>
  publishes to the explicit receiver \<open>R\<close>, which is never registered. The publish
  appends \<open>R\<close> to the subscriber list stored for \<open>S\<close>, but the next publish from \<open>S\<close>
  reaches \<open>X\<close> only: \<open>R\<close> has no mailbox and gets no \<open>put\<close> task.
\<close>

theorem later_publish_not_delivered_counterexample:
  "subscribers (subscribe ''X'' ''S'' (register_agent ''X'' (init_queue :: unit AsyncMessageQueue))) ''S''
     = Some [''X'']
   \<and> subscribers (snd (publish
          \<lparr>msg_id = ''1'', sender = ''S'', receiver = ''R'', content = (), message_type = ''data'', metadata = None\<rparr>
          (subscribe ''X'' ''S'' (register_agent ''X'' (init_queue :: unit AsyncMessageQueue))))) ''S''
     = Some [''X'', ''R'']
   \<and> queues (snd (publish
          \<lparr>msg_id = ''2'', sender = ''S'', receiver = [], content = (), message_type = ''data'', metadata = None\<rparr>
          (snd (publish
             \<lparr>msg_id = ''1'', sender = ''S'', receiver = ''R'', content = (), message_type = ''data'', metadata = None\<rparr>
             (subscribe ''X'' ''S'' (register_agent ''X'' (init_queue :: unit AsyncMessageQueue))))))) ''R''
     = None
   \<and> queues (snd (publish
          \<lparr>msg_id = ''2'', sender = ''S'', receiver = [], content = (), message_type = ''data'', metadata = None\<rparr>
          (snd (publish
             \<lparr>msg_id = ''1'', sender = ''S'', receiver = ''R'', content = (), message_type = ''data'', metadata = None\<rparr>
             (subscribe ''X'' ''S'' (register_agent ''X'' (init_queue :: unit AsyncMessageQueue))))))) ''X''
     = Some [\<lparr>msg_id = ''1'', sender = ''S'', receiver = ''R'', content = (), message_type = ''data'', metadata = None\<rparr>,
             \<lparr>msg_id = ''2'', sender = ''S'', receiver = [], content = (), message_type = ''data'', metadata = None\<rparr>]"
  by (simp add: publish_queues publish_subscribers resolve_receivers_def subscribe_def
        defaultdict_getitem_def register_agent_def init_queue_def)

text \<open>
  C2, amended. When the sender has a stored, non-empty subscriber list and the message
  names an explicit receiver, \<open>publish\<close> appends that receiver to the stored list, so the
  subscription table after the call differs from the one before. After any further
  sequence of calls on the queue, every publish from the same sender has that receiver
  among its receivers; it appends the new message to the receiver's mailbox, at least
  once, if the receiver is registered by then, and creates no mailbox and delivers
  nothing to it otherwise.
\<close>

theorem publish_appends_receiver_to_subscribers:
  assumes "subscribers st (sender message) = Some subs"
    and "subs \<noteq> []"
    and "receiver message \<noteq> []"
  shows "subscribers (snd (publish message st)) (sender message) = Some (subs @ [receiver message])
       \<and> subscribers (snd (publish message st)) \<noteq> subscribers st
       \<and> (\<forall>ops later. sender later = sender message \<longrightarrow>
            receiver message \<in> set (fst (resolve_receivers later
                (subscribers (run_queue ops (snd (publish message st))))))
            \<and> (\<forall>q. queues (run_queue ops (snd (publish message st))) (receiver message) = Some q \<longrightarrow>
                 (\<exists>k>0. queues (snd (publish later (run_queue ops (snd (publish message st)))))
                           (receiver message) = Some (q @ replicate k later)))
            \<and> (queues (run_queue ops (snd (publish message st))) (receiver message) = None \<longrightarrow>
                 queues (snd (publish later (run_queue ops (snd (publish message st)))))
                   (receiver message) = None))"
proof -
  let ?st' = "snd (publish message st)"
  have upd: "subscribers ?st' = (subscribers st)(sender message \<mapsto> subs @ [receiver message])"
    using assms(1,3) by (simp add: publish_subscribers resolve_receivers_def)
  then have a: "subscribers ?st' (sender message) = Some (subs @ [receiver message])"
    by simp
  have b: "subscribers ?st' \<noteq> subscribers st"
  proof
    assume "subscribers ?st' = subscribers st"
    then have "subscribers ?st' (sender message) = subscribers st (sender message)" by simp
    with a assms(1) show False by simp
  qed
  have l: "listed (receiver message) (sender message) ?st'"
    using a by (simp add: listed_def)
  have c: "receiver message \<in> set (fst (resolve_receivers later (subscribers (run_queue ops ?st'))))"
    if "sender later = sender message" for ops later
    using listed_resolve [of "receiver message" later "run_queue ops ?st'"]
          listed_run [OF l, of ops] that by simp
  have d: "\<exists>k>0. queues (snd (publish later (run_queue ops ?st'))) (receiver message)
                   = Some (q @ replicate k later)"
    if "sender later = sender message"
      and "queues (run_queue ops ?st') (receiver message) = Some q" for ops later q
  proof -
    let ?k = "count_list (fst (resolve_receivers later (subscribers (run_queue ops ?st')))) (receiver message)"
    have "?k > 0" using c [OF that(1), of ops] by (rule count_list_pos)
    moreover have "queues (snd (publish later (run_queue ops ?st'))) (receiver message)
                   = Some (q @ replicate ?k later)"
      using that(2) by (simp add: publish_queues)
    ultimately show ?thesis by blast
  qed
  have e: "queues (snd (publish later (run_queue ops ?st'))) (receiver message) = None"
    if "queues (run_queue ops ?st') (receiver message) = None" for ops later
    using that by (simp add: publish_queues)
  from a b c d e show ?thesis by blast
qed

theorem publish_appends_receiver_to_subscribers_witness:
  "subscribers (subscribe ''X'' ''S'' (init_queue :: unit AsyncMessageQueue)) ''S'' = Some [''X'']
   \<and> subscribers (snd (publish
          \<lparr>msg_id = ''1'', sender = ''S'', receiver = ''R'', content = (), message_type = ''data'', metadata = None\<rparr>
          (subscribe ''X'' ''S'' (init_queue :: unit AsyncMessageQueue)))) ''S'' = Some [''X'', ''R'']
   \<and> ''R'' \<in> set (fst (resolve_receivers
          \<lparr>msg_id = ''2'', sender = ''S'', receiver = [], content = (), message_type = ''data'', metadata = None\<rparr>
          (subscribers (run_queue [Register ''R'']
             (snd (publish
                \<lparr>msg_id = ''1'', sender = ''S'', receiver = ''R'', content = (), message_type = ''data'', metadata = None\<rparr>
                (subscribe ''X'' ''S'' (init_queue :: unit AsyncMessageQueue))))))))
   \<and> queues (snd (publish
          \<lparr>msg_id = ''2'', sender = ''S'', receiver = [], content = (), message_type = ''data'', metadata = None\<rparr>
          (run_queue [Register ''R'']
             (snd (publish
                \<lparr>msg_id = ''1'', sender = ''S'', receiver = ''R'', content = (), message_type = ''data'', metadata = None\<rparr>
                (subscribe ''X'' ''S'' (init_queue :: unit AsyncMessageQueue))))))) ''R''
       = Some [\<lparr>msg_id = ''2'', sender = ''S'', receiver = [], content = (), message_type = ''data'', metadata = None\<rparr>]"
proof -
  let ?m = "\<lparr>msg_id = ''1'', sender = ''S'', receiver = ''R'', content = (), message_type = ''data'', metadata = None\<rparr>"
  let ?later = "\<lparr>msg_id = ''2'', sender = ''S'', receiver = [], content = (), message_type = ''data'', metadata = None\<rparr>"
  let ?st = "subscribe ''X'' ''S'' (init_queue :: unit AsyncMessageQueue)"
  have s: "subscribers ?st (sender ?m) = Some [''X'']"
    by (simp add: subscribe_def defaultdict_getitem_def init_queue_def)
  have n: "[''X''] \<noteq> []" and r: "receiver ?m \<noteq> []" by simp_all
  have e: "sender ?later = sender ?m" by simp
  have q: "queues (snd (publish ?later (run_queue [Register ''R''] (snd (publish ?m ?st))))) ''R''
             = Some [?later]"
    by (simp add: run_queue_def publish_queues publish_subscribers resolve_receivers_def
          register_agent_def subscribe_def defaultdict_getitem_def init_queue_def)
  from publish_appends_receiver_to_subscribers [OF s n r] s e q
  show ?thesis by simp
qed

end
